theory Spec2Isabelle
  imports Complex_Main "HOL-Library.Sublist"
begin

section \<open>git-ai: prompt construction, repository summary, configuration and message session\<close>

text \<open>
  A shallow embedding of \<^verbatim>\<open>git_ai/git_utils.py\<close>, \<^verbatim>\<open>git_ai/config.py\<close>,
  \<^verbatim>\<open>git_ai/llm_client.py\<close> and \<^verbatim>\<open>git_ai/cli.py\<close>.

  Conventions. A Python \<^verbatim>\<open>str\<close> is a \<^typ>\<open>string\<close>; one \<^typ>\<open>char\<close> stands for one
  character of the Python string, so the model ranges over strings whose code points are
  below 256 (the emoji of the semantic template are written as their UTF-8 bytes; no
  length of a template is ever taken). A raised exception is the \<open>Inl\<close> of a sum.
  The version-control backend, the process environment, the provider SDKs, the console
  library, float arithmetic and the user's console input are arguments of the functions
  that read them.
\<close>

subsection \<open>Python values and exceptions\<close>

datatype exn =
    TypeError
  | KeyError
  | ValueError
  | IndexError
  | EOFError
  | OverflowError
  | MarkupError
  | SdkError string

text \<open>
  A value of the configuration document (what \<^verbatim>\<open>yaml.safe_load\<close> produces and what the
  commands store). A dictionary keeps its insertion order, as Python's does.
  \<open>VFloat r\<close> is the finite float whose value is the real \<open>r\<close>; infinities and
  \<^verbatim>\<open>nan\<close> are not modelled.
\<close>

datatype cval =
    VNone
  | VBool bool
  | VInt int
  | VFloat real
  | VStr string
  | VList "cval list"
  | VDict "(string \<times> cval) list"

type_synonym pydict = "(string \<times> cval) list"

fun dict_get :: "(string \<times> 'v) list \<Rightarrow> string \<Rightarrow> 'v option" where
  "dict_get [] k = None"
| "dict_get ((k', v) # d) k = (if k' = k then Some v else dict_get d k)"

text \<open>\<^verbatim>\<open>d[k] = v\<close>: an existing key keeps its position, a new key goes last.\<close>

fun dict_set :: "(string \<times> 'v) list \<Rightarrow> string \<Rightarrow> 'v \<Rightarrow> (string \<times> 'v) list" where
  "dict_set [] k v = [(k, v)]"
| "dict_set ((k', v') # d) k v =
     (if k' = k then (k, v) # d else (k', v') # dict_set d k v)"

subsection \<open>Python string operations\<close>

text \<open>\<^verbatim>\<open>sep.join(xs)\<close>\<close>

fun join :: "string \<Rightarrow> string list \<Rightarrow> string" where
  "join sep [] = []"
| "join sep [x] = x"
| "join sep (x # y # ys) = x @ sep @ join sep (y # ys)"

text \<open>\<^verbatim>\<open>s[:n]\<close> for an integer \<open>n\<close>: a negative \<open>n\<close> counts from the end.\<close>

definition slice_to :: "'a list \<Rightarrow> int \<Rightarrow> 'a list" where
  "slice_to s n = (if n < 0 then take (nat (int (length s) + n)) s else take (nat n) s)"

text \<open>
  Whitespace, as \<^verbatim>\<open>str.strip\<close>, \<^verbatim>\<open>str.split\<close> and \<^verbatim>\<open>int\<close> see it, among the code points
  below 256.
\<close>

definition is_space :: "char \<Rightarrow> bool" where
  "is_space c = ((of_char c :: nat) \<in> {9, 10, 11, 12, 13, 28, 29, 30, 31, 32, 133, 160})"

text \<open>\<^verbatim>\<open>s.strip()\<close>\<close>

definition strip :: "string \<Rightarrow> string" where
  "strip s = rev (dropWhile is_space (rev (dropWhile is_space s)))"

text \<open>\<^verbatim>\<open>s.split()\<close>: the maximal runs of characters that are not whitespace.\<close>

fun split_ws_acc :: "string \<Rightarrow> string \<Rightarrow> string list" where
  "split_ws_acc cur [] = (if cur = [] then [] else [cur])"
| "split_ws_acc cur (c # cs) =
     (if is_space c then (if cur = [] then split_ws_acc [] cs else cur # split_ws_acc [] cs)
      else split_ws_acc (cur @ [c]) cs)"

definition split_ws :: "string \<Rightarrow> string list" where
  "split_ws s = split_ws_acc [] s"

text \<open>\<^verbatim>\<open>s.split(sep)\<close> for a separator of one character.\<close>

fun split_on_acc :: "char \<Rightarrow> string \<Rightarrow> string \<Rightarrow> string list" where
  "split_on_acc sep cur [] = [cur]"
| "split_on_acc sep cur (c # cs) =
     (if c = sep then cur # split_on_acc sep [] cs else split_on_acc sep (cur @ [c]) cs)"

definition split_on :: "char \<Rightarrow> string \<Rightarrow> string list" where
  "split_on sep s = split_on_acc sep [] s"

text \<open>
  \<^verbatim>\<open>int(s)\<close> for a string: surrounding whitespace is dropped, a sign may come first, and
  the digits may be grouped by single underscores.
\<close>

definition is_digit :: "char \<Rightarrow> bool" where
  "is_digit c = (48 \<le> (of_char c :: nat) \<and> (of_char c :: nat) \<le> 57)"

definition digit_val :: "char \<Rightarrow> nat" where
  "digit_val c = of_char c - 48"

fun int_body :: "string \<Rightarrow> bool" where
  "int_body [] = False"
| "int_body [c] = is_digit c"
| "int_body (c # d # cs) =
     (is_digit c \<and> (if d = CHR ''_'' then int_body cs else int_body (d # cs)))"

fun digits_val :: "nat \<Rightarrow> string \<Rightarrow> nat" where
  "digits_val acc [] = acc"
| "digits_val acc (c # cs) = digits_val (10 * acc + digit_val c) cs"

definition py_int :: "string \<Rightarrow> exn + int" where
  "py_int s =
     (let t = strip s;
          neg = (t \<noteq> [] \<and> hd t = CHR ''-'');
          body = (if t \<noteq> [] \<and> (hd t = CHR ''-'' \<or> hd t = CHR ''+'') then tl t else t)
      in if int_body body
         then Inr ((if neg then - 1 else 1) * int (digits_val 0 (filter (\<lambda>c. c \<noteq> CHR ''_'') body)))
         else Inl ValueError)"

subsection \<open>Repository inspector: \<^verbatim>\<open>GitRepo.get_diff_summary\<close>\<close>

text \<open>
  One entry of \<^verbatim>\<open>repo.index.diff("HEAD")\<close>: its change type (\<^verbatim>\<open>A\<close>, \<^verbatim>\<open>D\<close>, \<^verbatim>\<open>M\<close>,
  \<^verbatim>\<open>R\<close>, ...) and its two paths, each of which may be \<^verbatim>\<open>None\<close>.
\<close>

record diff_item =
  change_type :: string
  a_path :: "string option"
  b_path :: "string option"

record file_change =
  path :: "string option"
  ftype :: string

record diff_summary =
  files_changed :: "file_change list"
  additions :: int
  deletions :: int
  modifications :: int

text \<open>\<^verbatim>\<open>a or b\<close> on optional strings: \<^verbatim>\<open>None\<close> and the empty string are falsy.\<close>

definition py_or :: "string option \<Rightarrow> string option \<Rightarrow> string option" where
  "py_or a b = (case a of None \<Rightarrow> b | Some s \<Rightarrow> (if s = [] then b else Some s))"

definition empty_summary :: diff_summary where
  "empty_summary = \<lparr>files_changed = [], additions = 0, deletions = 0, modifications = 0\<rparr>"

text \<open>The body of the \<^verbatim>\<open>for item in diff\<close> loop.\<close>

definition summary_step :: "diff_summary \<Rightarrow> diff_item \<Rightarrow> diff_summary" where
  "summary_step summary item =
     (let ct = change_type item;
          file_path = py_or (a_path item) (b_path item);
          s1 = summary\<lparr>files_changed :=
                 files_changed summary @ [\<lparr>path = file_path, ftype = ct\<rparr>]\<rparr>
      in if ct = ''A'' then s1\<lparr>additions := additions s1 + 1\<rparr>
         else if ct = ''D'' then s1\<lparr>deletions := deletions s1 + 1\<rparr>
         else if ct = ''M'' then s1\<lparr>modifications := modifications s1 + 1\<rparr>
         else s1)"

definition get_diff_summary :: "diff_item list \<Rightarrow> diff_summary" where
  "get_diff_summary diff = foldl summary_step empty_summary diff"

text \<open>The entries that one of the three counters counts.\<close>

definition counted :: "file_change \<Rightarrow> bool" where
  "counted f = (ftype f = ''A'' \<or> ftype f = ''D'' \<or> ftype f = ''M'')"

subsection \<open>Configuration: \<^verbatim>\<open>Config\<close>\<close>

text \<open>
  The floats that the literals \<^verbatim>\<open>0.3\<close> and \<^verbatim>\<open>0.2\<close> of the source denote: the doubles
  nearest to three tenths and to two tenths, as fractions with denominator \<open>2 ^ 54\<close>.
\<close>

definition float_0_3 :: real where
  "float_0_3 = 5404319552844595 / 18014398509481984"

definition float_0_2 :: real where
  "float_0_2 = 3602879701896397 / 18014398509481984"

text \<open>\<^verbatim>\<open>Config.DEFAULT_CONFIG\<close>\<close>

definition DEFAULT_CONFIG :: pydict where
  "DEFAULT_CONFIG =
     [(''provider'', VStr ''anthropic''),
      (''model'', VDict [(''anthropic'', VStr ''claude-sonnet-4-20250514''),
                         (''openai'', VStr ''gpt-4-turbo-preview''),
                         (''ollama'', VStr ''llama2'')]),
      (''commit_types'', VList (map VStr [''feat'', ''fix'', ''docs'', ''style'', ''refactor'',
                                          ''perf'', ''test'', ''chore'', ''ci'', ''build''])),
      (''max_diff_length'', VInt 4000),
      (''temperature'', VFloat float_0_3),
      (''use_toon'', VBool False)]"

text \<open>\<^verbatim>\<open>config.get(key, default)\<close> and \<^verbatim>\<open>config.set(key, value)\<close>\<close>

definition config_get_default :: "pydict \<Rightarrow> string \<Rightarrow> cval \<Rightarrow> cval" where
  "config_get_default cfg key dflt = (case dict_get cfg key of None \<Rightarrow> dflt | Some v \<Rightarrow> v)"

definition config_set_key :: "pydict \<Rightarrow> string \<Rightarrow> cval \<Rightarrow> pydict" where
  "config_set_key cfg key v = dict_set cfg key v"

text \<open>\<^verbatim>\<open>self.config[key]\<close>\<close>

definition config_item :: "pydict \<Rightarrow> string \<Rightarrow> exn + cval" where
  "config_item cfg key = (case dict_get cfg key of None \<Rightarrow> Inl KeyError | Some v \<Rightarrow> Inr v)"

subsection \<open>Prompt builder: \<^verbatim>\<open>LLMClient._build_prompt\<close>\<close>

record commit_record =
  hash :: string
  message :: string
  author :: string

text \<open>\<^verbatim>\<open>str(n)\<close> for an integer, as an f-string renders it.\<close>

definition digit_char :: "nat \<Rightarrow> char" where
  "digit_char d = ''0123456789'' ! d"

function str_nat :: "nat \<Rightarrow> string" where
  "str_nat n = (if n < 10 then [digit_char n] else str_nat (n div 10) @ [digit_char (n mod 10)])"
  by pat_completeness auto
termination
  by (relation "measure id") auto

declare str_nat.simps [simp del]

definition str_int :: "int \<Rightarrow> string" where
  "str_int i = (if i < 0 then CHR ''-'' # str_nat (nat (- i)) else str_nat (nat i))"

text \<open>An optional string in an f-string: \<^verbatim>\<open>None\<close> prints as its name.\<close>

definition str_opt :: "string option \<Rightarrow> string" where
  "str_opt p = (case p of None \<Rightarrow> ''None'' | Some s \<Rightarrow> s)"

text \<open>
  \<^verbatim>\<open>", ".join(config.commit_types)\<close>: the key must be there, and the value must be an
  iterable of strings (a list of strings; a string, whose characters are joined; a
  dictionary, whose keys are joined).
\<close>

fun str_items :: "cval list \<Rightarrow> exn + string list" where
  "str_items [] = Inr []"
| "str_items (VStr s # vs) =
     (case str_items vs of Inl e \<Rightarrow> Inl e | Inr ss \<Rightarrow> Inr (s # ss))"
| "str_items (_ # vs) = Inl TypeError"

definition join_value :: "string \<Rightarrow> cval \<Rightarrow> exn + string" where
  "join_value sep v =
     (case v of
        VList vs \<Rightarrow> (case str_items vs of Inl e \<Rightarrow> Inl e | Inr ss \<Rightarrow> Inr (join sep ss))
      | VStr s \<Rightarrow> Inr (join sep (map (\<lambda>c. [c]) s))
      | VDict d \<Rightarrow> Inr (join sep (map fst d))
      | _ \<Rightarrow> Inl TypeError)"

definition render_file :: "file_change \<Rightarrow> string" where
  "render_file f = ''- '' @ str_opt (path f) @ '' ('' @ ftype f @ '')''"

definition render_commit :: "commit_record \<Rightarrow> string" where
  "render_commit c = ''- '' @ hash c @ '': '' @ message c"

definition recent_header :: string where
  "recent_header = ''\<newline>\<newline>Recent commits for context:\<newline>''"

definition recent_context :: "commit_record list \<Rightarrow> string" where
  "recent_context recent_commits =
     (if recent_commits = [] then []
      else recent_header @ join ''\<newline>'' (map render_commit (take 3 recent_commits)))"

definition guide_conventional :: "string \<Rightarrow> string" where
  "guide_conventional commit_types =
     ''\<newline>Format: <type>(<scope>): <subject>\<newline>\<newline><body>\<newline>\<newline>Types: '' @ commit_types @
     ''\<newline>- Use feat: for new features\<newline>- Use fix: for bug fixes\<newline>'' @
     ''- Use docs: for documentation\<newline>- Use refactor: for code refactoring\<newline>'' @
     ''- Use test: for test changes\<newline>- Use chore: for maintenance tasks\<newline>\<newline>'' @
     ''Rules:\<newline>1. Subject line max 50 chars, lowercase, no period\<newline>'' @
     ''2. Body wraps at 72 chars\<newline>3. Explain WHAT and WHY, not HOW\<newline>'' @
     ''4. Use imperative mood ('' @ [CHR 0x22] @ ''add'' @ [CHR 0x22] @ '' not '' @
     [CHR 0x22] @ ''added'' @ [CHR 0x22] @ '')\<newline>''"

text \<open>The four emoji of the semantic examples, as the bytes of the source file.\<close>

definition emoji_sparkles :: string where
  "emoji_sparkles = [CHR 0xE2, CHR 0x9C, CHR 0xA8]"

definition emoji_bug :: string where
  "emoji_bug = [CHR 0xF0, CHR 0x9F, CHR 0x90, CHR 0x9B]"

definition emoji_memo :: string where
  "emoji_memo = [CHR 0xF0, CHR 0x9F, CHR 0x93, CHR 0x9D]"

definition emoji_recycle :: string where
  "emoji_recycle = [CHR 0xE2, CHR 0x99, CHR 0xBB, CHR 0xEF, CHR 0xB8, CHR 0x8F]"

definition guide_semantic :: string where
  "guide_semantic =
     ''\<newline>Format: <emoji> <type>: <subject>\<newline>\<newline>Examples:\<newline>'' @
     emoji_sparkles @ '' feat: add user authentication\<newline>'' @
     emoji_bug @ '' fix: resolve memory leak in worker\<newline>'' @
     emoji_memo @ '' docs: update API documentation\<newline>'' @
     emoji_recycle @ '' refactor: simplify database queries\<newline>''"

definition guide_simple :: string where
  "guide_simple =
     ''\<newline>Format: <subject>\<newline>\<newline><body>\<newline>\<newline>'' @
     ''Keep it simple and clear. Focus on what changed and why.\<newline>''"

text \<open>The \<^verbatim>\<open>if style == ... elif ... else\<close> chain: any other style gets the simple guide.\<close>

definition format_guide :: "string \<Rightarrow> string \<Rightarrow> string" where
  "format_guide style commit_types =
     (if style = ''conventional'' then guide_conventional commit_types
      else if style = ''semantic'' then guide_semantic
      else guide_simple)"

definition prompt_head :: string where
  "prompt_head =
     ''Generate a git commit message for the following changes.\<newline>\<newline>Files changed:\<newline>''"

definition prompt_tail :: string where
  "prompt_tail =
     ''\<newline>\<newline>Generate a clear, concise commit message. '' @
     ''Return ONLY the commit message, no explanations.''"

definition fence_open :: string where
  "fence_open = ''\<newline>\<newline>Git diff:\<newline>```\<newline>''"

definition fence_close :: string where
  "fence_close = ''\<newline>```\<newline>''"

definition render_counts :: "diff_summary \<Rightarrow> string" where
  "render_counts s =
     ''\<newline>\<newline>Summary:\<newline>- '' @ str_int (additions s) @ '' file(s) added\<newline>- '' @
     str_int (modifications s) @ '' file(s) modified\<newline>- '' @
     str_int (deletions s) @ '' file(s) deleted\<newline>\<newline>''"

definition build_prompt ::
  "pydict \<Rightarrow> string \<Rightarrow> diff_summary \<Rightarrow> commit_record list \<Rightarrow> string \<Rightarrow> exn + string" where
  "build_prompt cfg diff summary recent_commits style =
     (case config_item cfg ''commit_types'' of
        Inl e \<Rightarrow> Inl e
      | Inr tv \<Rightarrow>
          (case join_value '', '' tv of
             Inl e \<Rightarrow> Inl e
           | Inr commit_types \<Rightarrow>
               Inr (prompt_head @ join ''\<newline>'' (map render_file (files_changed summary)) @
                    render_counts summary @ format_guide style commit_types @
                    fence_open @ diff @ fence_close @ recent_context recent_commits @
                    prompt_tail)))"

subsection \<open>Repository inspector: \<^verbatim>\<open>GitRepo.get_commit_stats\<close>\<close>

text \<open>The \<^verbatim>\<open>for part in parts[1:]\<close> loop, with the running total.\<close>

fun stats_loop :: "string list \<Rightarrow> int \<Rightarrow> exn + int" where
  "stats_loop [] total_changes = Inr total_changes"
| "stats_loop (part # parts) total_changes =
     (if sublist ''insertion'' part \<or> sublist ''deletion'' part
      then (case split_ws (strip part) of
              [] \<Rightarrow> Inl IndexError
            | tok # _ \<Rightarrow>
                (case py_int tok of
                   Inl e \<Rightarrow> Inl e
                 | Inr num \<Rightarrow> stats_loop parts (total_changes + num)))
      else stats_loop parts total_changes)"

text \<open>
  The arguments are what the backend returns: the entries of the index diff and the
  text of \<^verbatim>\<open>git diff --cached --shortstat\<close>.
\<close>

definition get_commit_stats :: "diff_item list \<Rightarrow> string \<Rightarrow> exn + (nat \<times> int)" where
  "get_commit_stats diff diff_text =
     (if diff_text \<noteq> []
      then (case stats_loop (drop 1 (split_on CHR '','' diff_text)) 0 of
              Inl e \<Rightarrow> Inl e
            | Inr total_changes \<Rightarrow> Inr (length diff, total_changes))
      else Inr (length diff, 0))"

text \<open>
  The line that \<^verbatim>\<open>git diff --shortstat\<close> prints for a number of files, of inserted and of
  deleted lines (the source's comment shows one:
  \<^verbatim>\<open>2 files changed, 10 insertions(+), 3 deletions(-)\<close>): nothing when no file changed; a
  count of zero is left out unless both are zero.
\<close>

definition plural :: "nat \<Rightarrow> string" where
  "plural n = (if n = 1 then [] else ''s'')"

definition shortstat_line :: "nat \<Rightarrow> nat \<Rightarrow> nat \<Rightarrow> string" where
  "shortstat_line files ins dels =
     (if files = 0 then []
      else '' '' @ str_nat files @ '' file'' @ plural files @ '' changed'' @
           (if 0 < ins \<or> dels = 0
            then '', '' @ str_nat ins @ '' insertion'' @ plural ins @ ''(+)'' else []) @
           (if 0 < dels \<or> ins = 0
            then '', '' @ str_nat dels @ '' deletion'' @ plural dels @ ''(-)'' else []))"

subsection \<open>Truncation of the diff: \<^verbatim>\<open>LLMClient.generate_commit_message\<close>\<close>

definition truncation_marker :: string where
  "truncation_marker = ''\<newline>... (diff truncated)''"

text \<open>
  \<^verbatim>\<open>if len(diff) > max_length: diff = diff[:max_length] + marker\<close>, for the value that
  \<^verbatim>\<open>config.get("max_diff_length", 4000)\<close> returns: an integer (a boolean is one) compares
  and slices; a float compares, and raises when it is used as a slice index; anything
  else does not compare with an integer.
\<close>

definition truncate_diff :: "cval \<Rightarrow> string \<Rightarrow> exn + string" where
  "truncate_diff max_length diff =
     (case max_length of
        VInt n \<Rightarrow>
          Inr (if int (length diff) > n then slice_to diff n @ truncation_marker else diff)
      | VBool b \<Rightarrow>
          Inr (if int (length diff) > (if b then 1 else 0)
               then slice_to diff (if b then 1 else 0) @ truncation_marker else diff)
      | VFloat r \<Rightarrow> (if real (length diff) > r then Inl TypeError else Inr diff)
      | _ \<Rightarrow> Inl TypeError)"

text \<open>
  The prompt that \<^verbatim>\<open>generate_commit_message\<close> hands to the provider call.
\<close>

definition generation_prompt ::
  "pydict \<Rightarrow> string \<Rightarrow> diff_summary \<Rightarrow> commit_record list \<Rightarrow> string \<Rightarrow> exn + string" where
  "generation_prompt cfg diff summary recent_commits style =
     (case truncate_diff (config_get_default cfg ''max_diff_length'' (VInt 4000)) diff of
        Inl e \<Rightarrow> Inl e
      | Inr d \<Rightarrow> build_prompt cfg d summary recent_commits style)"

subsection \<open>Configuration commands: \<^verbatim>\<open>config_set\<close> and \<^verbatim>\<open>config_get\<close>\<close>

text \<open>
  The nested branch of \<^verbatim>\<open>config_set\<close>: the loop over \<^verbatim>\<open>parts[:-1]\<close> that walks into
  (and creates) the dictionaries, then \<^verbatim>\<open>current[parts[-1]] = value\<close>. When a value on
  the way is not a dictionary, the next subscript or membership test on it raises
  \<^verbatim>\<open>TypeError\<close>. The function returns the dictionary \<open>current\<close> as it is after the
  assignment.
\<close>

fun set_path :: "pydict \<Rightarrow> string list \<Rightarrow> cval \<Rightarrow> exn + pydict" where
  "set_path current [] v = Inl IndexError"
| "set_path current [last_part] v = Inr (dict_set current last_part v)"
| "set_path current (part # rest) v =
     (case (case dict_get current part of None \<Rightarrow> VDict [] | Some sub \<Rightarrow> sub) of
        VDict d \<Rightarrow>
          (case set_path d rest v of
             Inl e \<Rightarrow> Inl e
           | Inr d' \<Rightarrow> Inr (dict_set current part (VDict d')))
      | _ \<Rightarrow> Inl TypeError)"

text \<open>
  \<^verbatim>\<open>config_set key value\<close>: the configuration that \<^verbatim>\<open>save_config\<close> then writes, or the
  exception that the handler reports before it exits with status 1 (nothing is saved
  then). The value is the command-line argument, a string.
\<close>

definition config_set :: "pydict \<Rightarrow> string \<Rightarrow> string \<Rightarrow> exn + pydict" where
  "config_set cfg key v =
     (if CHR ''.'' \<in> set key then set_path cfg (split_on CHR ''.'' key) (VStr v)
      else Inr (config_set_key cfg key (VStr v)))"

text \<open>
  \<^verbatim>\<open>config_get key\<close>: with a key, the value that is printed after the key
  (\<^verbatim>\<open>config.get(key)\<close>, \<^verbatim>\<open>None\<close> for a key that is not there); without one, the table is
  shown instead.
\<close>

definition config_get :: "pydict \<Rightarrow> string option \<Rightarrow> cval option" where
  "config_get cfg key =
     (case key of
        None \<Rightarrow> None
      | Some k \<Rightarrow> (if k = [] then None else Some (config_get_default cfg k VNone)))"

subsection \<open>Provider gateway: \<^verbatim>\<open>LLMClient\<close>\<close>

text \<open>
  \<^verbatim>\<open>container[key]\<close> on configuration values; an index below zero counts from the end
  of a list or a string.
\<close>

definition py_index :: "'a list \<Rightarrow> int \<Rightarrow> exn + 'a" where
  "py_index xs i =
     (if 0 \<le> i \<and> i < int (length xs) then Inr (xs ! nat i)
      else if i < 0 \<and> - int (length xs) \<le> i then Inr (xs ! nat (int (length xs) + i))
      else Inl IndexError)"

definition subscript :: "cval \<Rightarrow> cval \<Rightarrow> exn + cval" where
  "subscript c k =
     (case c of
        VDict d \<Rightarrow>
          (case k of
             VStr s \<Rightarrow> (case dict_get d s of None \<Rightarrow> Inl KeyError | Some v \<Rightarrow> Inr v)
           | VList _ \<Rightarrow> Inl TypeError
           | VDict _ \<Rightarrow> Inl TypeError
           | _ \<Rightarrow> Inl KeyError)
      | VList xs \<Rightarrow>
          (case k of
             VInt i \<Rightarrow> py_index xs i
           | VBool b \<Rightarrow> py_index xs (if b then 1 else 0)
           | _ \<Rightarrow> Inl TypeError)
      | VStr s \<Rightarrow>
          (case k of
             VInt i \<Rightarrow> map_sum id (\<lambda>ch. VStr [ch]) (py_index s i)
           | VBool b \<Rightarrow> map_sum id (\<lambda>ch. VStr [ch]) (py_index s (if b then 1 else 0))
           | _ \<Rightarrow> Inl TypeError)
      | _ \<Rightarrow> Inl TypeError)"

text \<open>The properties \<^verbatim>\<open>Config.provider\<close>, \<^verbatim>\<open>Config.model\<close> and \<^verbatim>\<open>Config.api_key\<close>;
  the environment is what \<^verbatim>\<open>os.getenv\<close> reads.\<close>

definition config_provider :: "pydict \<Rightarrow> exn + cval" where
  "config_provider cfg = config_item cfg ''provider''"

definition config_model :: "pydict \<Rightarrow> exn + cval" where
  "config_model cfg =
     (case config_item cfg ''model'' of
        Inl e \<Rightarrow> Inl e
      | Inr m \<Rightarrow> (case config_provider cfg of Inl e \<Rightarrow> Inl e | Inr p \<Rightarrow> subscript m p))"

definition config_api_key :: "pydict \<Rightarrow> (string \<rightharpoonup> string) \<Rightarrow> exn + string option" where
  "config_api_key cfg env =
     (case config_provider cfg of
        Inl e \<Rightarrow> Inl e
      | Inr p \<Rightarrow>
          Inr (if p = VStr ''anthropic'' then env ''ANTHROPIC_API_KEY''
               else if p = VStr ''openai'' then env ''OPENAI_API_KEY''
               else None))"

text \<open>
  The two SDK client constructors that \<^verbatim>\<open>LLMClient.__init__\<close> calls, with the arguments
  it passes. The SDKs are not part of the repository: what a constructor does with its
  arguments is the function \<open>sdk\<close> below, which returns the client or the exception
  that the constructor raises.
\<close>

datatype sdk_ctor =
    Anthropic (api_key: "string option")
  | OpenAI (base_url: "string option") (api_key: "string option")

record 'c llm_client =
  provider :: cval
  model :: cval
  client :: 'c

definition LLMClient_init ::
  "(sdk_ctor \<Rightarrow> exn + 'c) \<Rightarrow> pydict \<Rightarrow> (string \<rightharpoonup> string) \<Rightarrow> string option
     \<Rightarrow> exn + 'c llm_client" where
  "LLMClient_init sdk cfg env provider_arg =
     (case (case provider_arg of
              None \<Rightarrow> config_provider cfg
            | Some p \<Rightarrow> (if p = [] then config_provider cfg else Inr (VStr p))) of
        Inl e \<Rightarrow> Inl e
      | Inr prov \<Rightarrow>
          (case config_model cfg of
             Inl e \<Rightarrow> Inl e
           | Inr mdl \<Rightarrow>
               (let made =
                      (if prov = VStr ''anthropic''
                       then (case config_api_key cfg env of
                               Inl e \<Rightarrow> Inl e | Inr k \<Rightarrow> sdk (Anthropic k))
                       else if prov = VStr ''openai''
                       then (case config_api_key cfg env of
                               Inl e \<Rightarrow> Inl e | Inr k \<Rightarrow> sdk (OpenAI None k))
                       else if prov = VStr ''ollama''
                       then sdk (OpenAI (Some ''http://localhost:11434/v1'') (Some ''ollama''))
                       else Inl ValueError)
                in (case made of
                      Inl e \<Rightarrow> Inl e
                    | Inr c \<Rightarrow> Inr \<lparr>provider = prov, model = mdl, client = c\<rparr>))))"

text \<open>
  A completion request, as \<^verbatim>\<open>_generate_anthropic\<close> and \<^verbatim>\<open>_generate_openai\<close> make it.
  The function \<open>sdk_call\<close> stands for the SDK call together with the extraction of the
  first text of the response; it returns that text or the exception raised on the way.
\<close>

datatype api = Messages | ChatCompletions

record completion_request =
  req_model :: cval
  max_tokens :: nat
  temperature :: cval
  content :: string

definition generate_with ::
  "api \<Rightarrow> (api \<Rightarrow> 'c \<Rightarrow> completion_request \<Rightarrow> exn + string) \<Rightarrow> 'c llm_client \<Rightarrow> pydict
     \<Rightarrow> string \<Rightarrow> exn + string" where
  "generate_with which sdk_call llm cfg prompt =
     (case sdk_call which (client llm)
             \<lparr>req_model = model llm, max_tokens = 500,
              temperature = config_get_default cfg ''temperature'' (VFloat float_0_3),
              content = prompt\<rparr> of
        Inl e \<Rightarrow> Inl e
      | Inr text \<Rightarrow> Inr (strip text))"

text \<open>The dispatch on \<^verbatim>\<open>self.provider\<close> that ends both public methods.\<close>

definition dispatch ::
  "(api \<Rightarrow> 'c \<Rightarrow> completion_request \<Rightarrow> exn + string) \<Rightarrow> 'c llm_client \<Rightarrow> pydict
     \<Rightarrow> string \<Rightarrow> exn + string" where
  "dispatch sdk_call llm cfg prompt =
     (if provider llm = VStr ''anthropic'' then generate_with Messages sdk_call llm cfg prompt
      else generate_with ChatCompletions sdk_call llm cfg prompt)"

definition generate_commit_message ::
  "(api \<Rightarrow> 'c \<Rightarrow> completion_request \<Rightarrow> exn + string) \<Rightarrow> 'c llm_client \<Rightarrow> pydict
     \<Rightarrow> string \<Rightarrow> diff_summary \<Rightarrow> commit_record list \<Rightarrow> string \<Rightarrow> exn + string" where
  "generate_commit_message sdk_call llm cfg diff summary recent_commits style =
     (case generation_prompt cfg diff summary recent_commits style of
        Inl e \<Rightarrow> Inl e
      | Inr prompt \<Rightarrow> dispatch sdk_call llm cfg prompt)"

definition refine_prompt :: "string \<Rightarrow> string \<Rightarrow> string" where
  "refine_prompt original feedback =
     ''Refine this commit message based on the feedback.\<newline>\<newline>Original message:\<newline>'' @ original @
     ''\<newline>\<newline>Feedback:\<newline>'' @ feedback @
     ''\<newline>\<newline>Generate the refined commit message. '' @
     ''Return ONLY the commit message, no explanations.''"

definition refine_message ::
  "(api \<Rightarrow> 'c \<Rightarrow> completion_request \<Rightarrow> exn + string) \<Rightarrow> 'c llm_client \<Rightarrow> pydict
     \<Rightarrow> string \<Rightarrow> string \<Rightarrow> exn + string" where
  "refine_message sdk_call llm cfg original feedback =
     dispatch sdk_call llm cfg (refine_prompt original feedback)"

subsection \<open>Message session: \<^verbatim>\<open>_interactive_edit\<close> and the end of \<^verbatim>\<open>commit\<close>\<close>

text \<open>
  What the user enters at the options menu: the choice (an answer outside the choices is
  asked again, an empty answer is the default \<^verbatim>\<open>a\<close>) and, for an edit, the lines typed
  before the end-of-input signal, for feedback, the line typed as feedback.
\<close>

datatype choice = Accept | Regenerate | Edit "string list" | Feedback string | Cancel

text \<open>How the loop ends: it returns a message, it calls \<^verbatim>\<open>sys.exit\<close>, or an exception
  leaves it.\<close>

datatype outcome = Returned string | Exited int | Raised exn

text \<open>
  Python's float arithmetic is not computed here; the two operations that the regenerate
  branch needs are arguments: the sum of two finite floats (given and returned by their
  values), and the conversion of an integer to a float, which has no result when the
  integer is beyond the range of floats (\<^verbatim>\<open>OverflowError\<close>).
\<close>

record float_ops =
  float_add :: "real \<Rightarrow> real \<Rightarrow> real"
  float_of_int :: "int \<Rightarrow> real option"

text \<open>
  \<^verbatim>\<open>min(x + 0.2, 1.0)\<close> for a float \<open>x\<close>: \<^verbatim>\<open>min\<close> returns its second argument when that is
  smaller than the first, and the first otherwise.
\<close>

definition bump :: "float_ops \<Rightarrow> real \<Rightarrow> cval" where
  "bump fl x =
     VFloat (if 1 < float_add fl x float_0_2 then 1 else float_add fl x float_0_2)"

text \<open>
  \<^verbatim>\<open>min(original_temp + 0.2, 1.0)\<close> for the value read from the configuration: a float is
  added to; an integer or a boolean is converted to a float first; anything else does
  not add to a float.
\<close>

definition bumped_temperature :: "float_ops \<Rightarrow> cval \<Rightarrow> exn + cval" where
  "bumped_temperature fl original_temp =
     (case original_temp of
        VFloat x \<Rightarrow> Inr (bump fl x)
      | VInt i \<Rightarrow>
          (case float_of_int fl i of None \<Rightarrow> Inl OverflowError | Some x \<Rightarrow> Inr (bump fl x))
      | VBool b \<Rightarrow> Inr (bump fl (if b then 1 else 0))
      | _ \<Rightarrow> Inl TypeError)"

text \<open>
  The regenerate branch: the configuration while the notice is printed, and the
  configuration when the branch is left. The branch makes no provider call.
\<close>

definition regenerate :: "float_ops \<Rightarrow> pydict \<Rightarrow> exn + (pydict \<times> pydict)" where
  "regenerate fl cfg =
     (let original_temp = config_get_default cfg ''temperature'' (VFloat float_0_3)
      in case bumped_temperature fl original_temp of
           Inl e \<Rightarrow> Inl e
         | Inr t' \<Rightarrow>
             (let during = config_set_key cfg ''temperature'' t'
              in Inr (during, config_set_key during ''temperature'' original_temp)))"

text \<open>
  The loop, over the inputs that the console still holds; when it asks and nothing is
  left, the prompt raises \<^verbatim>\<open>EOFError\<close>. It returns how it ended and the process-wide
  configuration at that moment.

  After an edit and after a refinement the new message is printed in a panel
  (\<^verbatim>\<open>console.print(Panel(current_message, ...))\<close>). The console library parses the text of
  a panel as markup and raises on some texts; it is not part of the repository, and the
  function \<open>panel\<close> gives, for a text, the exception that printing it in a panel raises,
  if any. The prompt for feedback returns the typed line stripped. The menu and the
  notices are fixed texts, and printing them is taken not to fail.
\<close>

fun interactive_edit ::
  "float_ops \<Rightarrow> (string \<Rightarrow> exn option)
     \<Rightarrow> (api \<Rightarrow> 'c \<Rightarrow> completion_request \<Rightarrow> exn + string) \<Rightarrow> 'c llm_client \<Rightarrow> pydict
     \<Rightarrow> string \<Rightarrow> choice list \<Rightarrow> outcome \<times> pydict" where
  "interactive_edit fl panel sdk_call llm cfg current_message [] = (Raised EOFError, cfg)"
| "interactive_edit fl panel sdk_call llm cfg current_message (Accept # inputs) =
     (Returned current_message, cfg)"
| "interactive_edit fl panel sdk_call llm cfg current_message (Regenerate # inputs) =
     (case regenerate fl cfg of
        Inl e \<Rightarrow> (Raised e, cfg)
      | Inr (during, after) \<Rightarrow>
          interactive_edit fl panel sdk_call llm after current_message inputs)"
| "interactive_edit fl panel sdk_call llm cfg current_message (Edit lines # inputs) =
     (case panel (join ''\<newline>'' lines) of
        Some e \<Rightarrow> (Raised e, cfg)
      | None \<Rightarrow> interactive_edit fl panel sdk_call llm cfg (join ''\<newline>'' lines) inputs)"
| "interactive_edit fl panel sdk_call llm cfg current_message (Feedback feedback # inputs) =
     (case refine_message sdk_call llm cfg current_message (strip feedback) of
        Inl e \<Rightarrow> (Raised e, cfg)
      | Inr refined \<Rightarrow>
          (case panel refined of
             Some e \<Rightarrow> (Raised e, cfg)
           | None \<Rightarrow> interactive_edit fl panel sdk_call llm cfg refined inputs))"
| "interactive_edit fl panel sdk_call llm cfg current_message (Cancel # inputs) =
     (Exited 0, cfg)"

text \<open>
  The end of \<^verbatim>\<open>commit\<close>, from the interactive editing on (the generated message has
  been shown): the exit status of the process, the message of the commit that was
  created if one was, and the exception that a handler reported if one did.
  \<^verbatim>\<open>sys.exit\<close> inside the loop is not an \<^verbatim>\<open>Exception\<close> and passes the handlers. The
  commit operation of the backend is the function \<open>repo_commit\<close>; \<open>confirm\<close> is the
  answer to the last question.
\<close>

record run_result =
  exit_status :: int
  committed :: "string option"
  reported :: "exn option"

definition commit_end ::
  "float_ops \<Rightarrow> (string \<Rightarrow> exn option)
     \<Rightarrow> (api \<Rightarrow> 'c \<Rightarrow> completion_request \<Rightarrow> exn + string) \<Rightarrow> 'c llm_client \<Rightarrow> pydict
     \<Rightarrow> (string \<Rightarrow> exn + string) \<Rightarrow> string \<Rightarrow> bool \<Rightarrow> bool \<Rightarrow> choice list \<Rightarrow> bool
     \<Rightarrow> run_result" where
  "commit_end fl panel sdk_call llm cfg repo_commit msg no_edit dry_run inputs confirm =
     (case (if no_edit then Returned msg
            else fst (interactive_edit fl panel sdk_call llm cfg msg inputs)) of
        Exited n \<Rightarrow> \<lparr>exit_status = n, committed = None, reported = None\<rparr>
      | Raised e \<Rightarrow> \<lparr>exit_status = 1, committed = None, reported = Some e\<rparr>
      | Returned final \<Rightarrow>
          (if dry_run then \<lparr>exit_status = 0, committed = None, reported = None\<rparr>
           else if confirm
           then (case repo_commit final of
                   Inl e \<Rightarrow> \<lparr>exit_status = 1, committed = None, reported = Some e\<rparr>
                 | Inr commit_hash \<Rightarrow>
                     \<lparr>exit_status = 0, committed = Some final, reported = None\<rparr>)
           else \<lparr>exit_status = 0, committed = None, reported = None\<rparr>))"

section \<open>Properties\<close>

subsection \<open>The diff summary\<close>

lemma summary_step_files:
  "files_changed (summary_step s item) =
     files_changed s @ [\<lparr>path = py_or (a_path item) (b_path item), ftype = change_type item\<rparr>]"
  by (simp add: summary_step_def Let_def)

lemma summary_step_total:
  "additions (summary_step s item) + deletions (summary_step s item)
     + modifications (summary_step s item) =
   additions s + deletions s + modifications s
     + (if change_type item \<in> {''A'', ''D'', ''M''} then 1 else 0)"
  by (simp add: summary_step_def Let_def)

lemma foldl_summary_files:
  "files_changed (foldl summary_step s diff) =
     files_changed s
       @ map (\<lambda>item. \<lparr>path = py_or (a_path item) (b_path item), ftype = change_type item\<rparr>) diff"
  by (induction diff arbitrary: s) (simp_all add: summary_step_files)

lemma foldl_summary_total:
  "additions (foldl summary_step s diff) + deletions (foldl summary_step s diff)
     + modifications (foldl summary_step s diff) =
   additions s + deletions s + modifications s
     + int (length (filter (\<lambda>item. change_type item \<in> {''A'', ''D'', ''M''}) diff))"
proof (induction diff arbitrary: s)
  case Nil
  show ?case by simp
next
  case (Cons item diff)
  show ?case
    unfolding foldl_Cons Cons.IH summary_step_total by simp
qed

text \<open>
  C2, as the code has it: every entry of the backend diff is appended to
  \<^verbatim>\<open>files_changed\<close>, in order, and the three counters add up to the number of entries
  whose type is \<^verbatim>\<open>A\<close>, \<^verbatim>\<open>D\<close> or \<^verbatim>\<open>M\<close>; an entry of any other type (a rename) is
  listed and not counted, so the sum never exceeds the length of the list.
\<close>

theorem get_diff_summary_counts:
  "length (files_changed (get_diff_summary diff)) = length diff
   \<and> map ftype (files_changed (get_diff_summary diff)) = map change_type diff
   \<and> additions (get_diff_summary diff) + deletions (get_diff_summary diff)
        + modifications (get_diff_summary diff)
      = int (length (filter counted (files_changed (get_diff_summary diff))))
   \<and> additions (get_diff_summary diff) + deletions (get_diff_summary diff)
        + modifications (get_diff_summary diff)
      \<le> int (length (files_changed (get_diff_summary diff)))"
proof -
  let ?s = "get_diff_summary diff"
  have files: "files_changed ?s =
      map (\<lambda>item. \<lparr>path = py_or (a_path item) (b_path item), ftype = change_type item\<rparr>) diff"
    by (simp add: get_diff_summary_def foldl_summary_files empty_summary_def)
  have total: "additions ?s + deletions ?s + modifications ?s =
      int (length (filter (\<lambda>item. change_type item \<in> {''A'', ''D'', ''M''}) diff))"
    unfolding get_diff_summary_def foldl_summary_total by (simp add: empty_summary_def)
  have cnt: "length (filter counted (files_changed ?s)) =
      length (filter (\<lambda>item. change_type item \<in> {''A'', ''D'', ''M''}) diff)"
    unfolding files by (simp add: filter_map comp_def counted_def)
  have le: "length (filter counted (files_changed ?s)) \<le> length (files_changed ?s)"
    by (rule length_filter_le)
  show ?thesis
    using files total cnt le by (simp add: comp_def)
qed

text \<open>
  C2 as stated fails on a staged rename: the entry is listed, no counter moves.
\<close>

theorem get_diff_summary_rename_counterexample:
  "additions (get_diff_summary
       [\<lparr>change_type = ''R'', a_path = Some ''old.py'', b_path = Some ''new.py''\<rparr>])
     + deletions (get_diff_summary
       [\<lparr>change_type = ''R'', a_path = Some ''old.py'', b_path = Some ''new.py''\<rparr>])
     + modifications (get_diff_summary
       [\<lparr>change_type = ''R'', a_path = Some ''old.py'', b_path = Some ''new.py''\<rparr>])
   \<noteq> int (length (files_changed (get_diff_summary
       [\<lparr>change_type = ''R'', a_path = Some ''old.py'', b_path = Some ''new.py''\<rparr>])))"
  by (simp add: get_diff_summary_def summary_step_def empty_summary_def Let_def)

subsection \<open>The prompt\<close>

lemma str_items_strs: "str_items (map VStr ts) = Inr ts"
  by (induction ts) simp_all

lemma build_prompt_types:
  assumes "dict_get cfg ''commit_types'' = Some (VList (map VStr ts))"
  shows "build_prompt cfg diff summary recent_commits style =
     Inr (prompt_head @ join ''\<newline>'' (map render_file (files_changed summary)) @
          render_counts summary @ format_guide style (join '', '' ts) @
          fence_open @ diff @ fence_close @ recent_context recent_commits @ prompt_tail)"
  using assms by (simp add: build_prompt_def config_item_def join_value_def str_items_strs)

lemma sublist_in_context: "sublist xs ys \<Longrightarrow> sublist xs (ps @ ys @ ss)"
proof -
  assume "sublist xs ys"
  then obtain p s where "ys = p @ xs @ s" by (auto simp: sublist_def)
  then have "ps @ ys @ ss = (ps @ p) @ xs @ (s @ ss)" by simp
  then show ?thesis unfolding sublist_def by blast
qed

lemma guide_conventional_types:
  "sublist (''Types: '' @ ct @ ''\<newline>'') (guide_conventional ct)"
proof -
  have "guide_conventional ct =
      ''\<newline>Format: <type>(<scope>): <subject>\<newline>\<newline><body>\<newline>\<newline>'' @ (''Types: '' @ ct @ ''\<newline>'') @
      drop (length (''\<newline>Format: <type>(<scope>): <subject>\<newline>\<newline><body>\<newline>\<newline>Types: '' @ ct @ ''\<newline>''))
        (guide_conventional ct)"
    by (simp add: guide_conventional_def)
  then show ?thesis
    unfolding sublist_def by blast
qed

lemma guide_semantic_example:
  "sublist (''\<newline>'' @ emoji_sparkles @ '' feat: add user authentication\<newline>'') guide_semantic"
  by code_simp

lemma guide_simple_plain:
  "list_all (\<lambda>c. (of_char c :: nat) < 128) guide_simple \<and> \<not> sublist ''Types:'' guide_simple"
  by code_simp

text \<open>
  C1, as the code has it. With a list of strings as commit types and a non-negative
  integer \<open>n\<close> as \<^verbatim>\<open>max_diff_length\<close>, the prompt for message generation is the text
  before the fence, the opening fence, the diff block, the closing fence and the text
  after it, where the text before and after does not depend on the diff. The diff block
  is the diff itself when its length is at most \<open>n\<close>; otherwise it is the first \<open>n\<close>
  characters of the diff, a newline, and the marker \<^verbatim>\<open>... (diff truncated)\<close>. Two diffs
  longer than \<open>n\<close> that agree on their first \<open>n\<close> characters give the same prompt:
  nothing of the remainder reaches it.
\<close>

theorem generation_prompt_diff_block:
  assumes types: "dict_get cfg ''commit_types'' = Some (VList (map VStr ts))"
    and max_len: "config_get_default cfg ''max_diff_length'' (VInt 4000) = VInt n"
    and nonneg: "0 \<le> n"
  shows "generation_prompt cfg diff summary recent_commits style =
       Inr ((prompt_head @ join ''\<newline>'' (map render_file (files_changed summary)) @
             render_counts summary @ format_guide style (join '', '' ts)) @
            ''\<newline>\<newline>Git diff:\<newline>```\<newline>'' @
            (if int (length diff) \<le> n then diff
             else take (nat n) diff @ ''\<newline>... (diff truncated)'') @
            ''\<newline>```\<newline>'' @ recent_context recent_commits @ prompt_tail)
     \<and> (n < int (length diff) \<and> n < int (length diff')
          \<and> take (nat n) diff = take (nat n) diff' \<longrightarrow>
         generation_prompt cfg diff summary recent_commits style =
         generation_prompt cfg diff' summary recent_commits style)"
  using nonneg
  by (simp add: generation_prompt_def max_len truncate_diff_def slice_to_def
        build_prompt_types [OF types] truncation_marker_def fence_open_def fence_close_def)

theorem generation_prompt_diff_block_witness:
  "generation_prompt [(''commit_types'', VList [VStr ''feat'', VStr ''fix'']),
                      (''max_diff_length'', VInt 4)]
       ''abcdefgh'' empty_summary [] ''simple'' =
     Inr ((prompt_head @ render_counts empty_summary @ guide_simple) @
          ''\<newline>\<newline>Git diff:\<newline>```\<newline>'' @ ''abcd\<newline>... (diff truncated)'' @
          ''\<newline>```\<newline>'' @ prompt_tail)
   \<and> generation_prompt [(''commit_types'', VList [VStr ''feat'', VStr ''fix'']),
                      (''max_diff_length'', VInt 4)]
       ''abcdefgh'' empty_summary [] ''simple'' =
     generation_prompt [(''commit_types'', VList [VStr ''feat'', VStr ''fix'']),
                      (''max_diff_length'', VInt 4)]
       ''abcdxyzuvw'' empty_summary [] ''simple''"
proof -
  let ?cfg = "[(''commit_types'', VList [VStr ''feat'', VStr ''fix'']),
               (''max_diff_length'', VInt 4)]"
  have types: "dict_get ?cfg ''commit_types'' = Some (VList (map VStr [''feat'', ''fix'']))"
    by simp
  have max_len: "config_get_default ?cfg ''max_diff_length'' (VInt 4000) = VInt 4"
    by (simp add: config_get_default_def)
  have nonneg: "(0::int) \<le> 4"
    by simp
  note block = generation_prompt_diff_block [OF types max_len nonneg,
      of "''abcdefgh''" empty_summary "[]" "''simple''" "''abcdxyzuvw''"]
  from block [THEN conjunct1] have first:
    "generation_prompt ?cfg ''abcdefgh'' empty_summary [] ''simple'' =
       Inr ((prompt_head @ render_counts empty_summary @ guide_simple) @
            ''\<newline>\<newline>Git diff:\<newline>```\<newline>'' @ ''abcd\<newline>... (diff truncated)'' @
            ''\<newline>```\<newline>'' @ prompt_tail)"
    by (simp add: empty_summary_def format_guide_def recent_context_def)
  from block [THEN conjunct2] have second:
    "generation_prompt ?cfg ''abcdefgh'' empty_summary [] ''simple'' =
     generation_prompt ?cfg ''abcdxyzuvw'' empty_summary [] ''simple''"
    by simp
  from first second show ?thesis by (rule conjI)
qed

text \<open>
  C1 as stated fails: with \<^verbatim>\<open>max_diff_length = 1\<close> and the diff \<^verbatim>\<open>@@\<close> the block is
  \<^verbatim>\<open>@\<close>, a newline, and the marker, and the prompt nowhere holds the first character
  immediately followed by the marker.
\<close>

theorem generation_prompt_marker_counterexample:
  "generation_prompt (dict_set DEFAULT_CONFIG ''max_diff_length'' (VInt 1)) ''@@''
       empty_summary [] ''simple''
     = Inr (prompt_head @ render_counts empty_summary @ guide_simple @ fence_open @
            ''@'' @ ''\<newline>... (diff truncated)'' @ fence_close @ prompt_tail)
   \<and> \<not> sublist (take 1 ''@@'' @ ''... (diff truncated)'')
        (prompt_head @ render_counts empty_summary @ guide_simple @ fence_open @
            ''@'' @ ''\<newline>... (diff truncated)'' @ fence_close @ prompt_tail)"
  by code_simp

text \<open>
  C7. The text between the closing fence and the closing instruction is empty when
  the history is empty, and otherwise it is the fixed header followed by the first
  three records at most, each rendered as \<^verbatim>\<open>- {hash}: {message}\<close>, joined by newlines;
  records after the third never reach the prompt.
\<close>

theorem build_prompt_recent_block:
  assumes types: "dict_get cfg ''commit_types'' = Some (VList (map VStr ts))"
  shows "build_prompt cfg diff summary recent_commits style =
       Inr ((prompt_head @ join ''\<newline>'' (map render_file (files_changed summary)) @
             render_counts summary @ format_guide style (join '', '' ts) @
             fence_open @ diff @ fence_close) @
            (if recent_commits = [] then []
             else ''\<newline>\<newline>Recent commits for context:\<newline>'' @
                  join ''\<newline>'' (map (\<lambda>c. ''- '' @ hash c @ '': '' @ message c)
                                    (take 3 recent_commits))) @
            prompt_tail)
     \<and> (recent_context recent_commits = [] \<longleftrightarrow> recent_commits = [])
     \<and> length (take 3 recent_commits) \<le> 3
     \<and> build_prompt cfg diff summary recent_commits style =
         build_prompt cfg diff summary (take 3 recent_commits) style"
proof -
  have same: "recent_context (take 3 recent_commits) = recent_context recent_commits"
    by (cases recent_commits) (simp_all add: recent_context_def)
  have rc: "map render_commit (take 3 recent_commits) =
     map (\<lambda>c. ''- '' @ hash c @ '': '' @ message c) (take 3 recent_commits)"
    by (simp add: render_commit_def)
  show ?thesis
    unfolding build_prompt_types [OF types] same
    by (simp add: recent_context_def recent_header_def rc)
qed

theorem build_prompt_recent_block_witness:
  "build_prompt [(''commit_types'', VList [VStr ''feat''])] ''d'' empty_summary
       [\<lparr>hash = ''aaaaaaa'', message = ''one'', author = ''x''\<rparr>,
        \<lparr>hash = ''bbbbbbb'', message = ''two'', author = ''x''\<rparr>,
        \<lparr>hash = ''ccccccc'', message = ''three'', author = ''y''\<rparr>,
        \<lparr>hash = ''ddddddd'', message = ''four'', author = ''y''\<rparr>] ''simple'' =
     Inr ((prompt_head @ render_counts empty_summary @ guide_simple @
           fence_open @ ''d'' @ fence_close) @
          ''\<newline>\<newline>Recent commits for context:\<newline>- aaaaaaa: one\<newline>- bbbbbbb: two\<newline>- ccccccc: three'' @
          prompt_tail)"
  using build_prompt_recent_block
    [of "[(''commit_types'', VList [VStr ''feat''])]" "[''feat'']" "''d''" empty_summary
        "[\<lparr>hash = ''aaaaaaa'', message = ''one'', author = ''x''\<rparr>,
          \<lparr>hash = ''bbbbbbb'', message = ''two'', author = ''x''\<rparr>,
          \<lparr>hash = ''ccccccc'', message = ''three'', author = ''y''\<rparr>,
          \<lparr>hash = ''ddddddd'', message = ''four'', author = ''y''\<rparr>]" "''simple''"]
  by (simp add: empty_summary_def format_guide_def)

text \<open>
  C8. With a list of strings as commit types: the conventional prompt holds the line
  \<^verbatim>\<open>Types: \<close> followed by the types joined by \<^verbatim>\<open>, \<close>; the semantic prompt holds an emoji
  example line; the simple prompt is built from the simple guide alone, in which the
  commit types do not occur, which is plain ASCII and which has no \<^verbatim>\<open>Types:\<close> line.
\<close>

theorem build_prompt_style_markers:
  assumes types: "dict_get cfg ''commit_types'' = Some (VList (map VStr ts))"
  shows "(\<exists>p. build_prompt cfg diff summary recent_commits ''conventional'' = Inr p
            \<and> sublist (''Types: '' @ join '', '' ts @ ''\<newline>'') p)
     \<and> (\<exists>p. build_prompt cfg diff summary recent_commits ''semantic'' = Inr p
            \<and> sublist (''\<newline>'' @ emoji_sparkles @ '' feat: add user authentication\<newline>'') p)
     \<and> build_prompt cfg diff summary recent_commits ''simple'' =
         Inr (prompt_head @ join ''\<newline>'' (map render_file (files_changed summary)) @
              render_counts summary @ guide_simple @
              fence_open @ diff @ fence_close @ recent_context recent_commits @ prompt_tail)
     \<and> list_all (\<lambda>c. (of_char c :: nat) < 128) guide_simple
     \<and> \<not> sublist ''Types:'' guide_simple"
proof -
  have conv: "\<exists>p. build_prompt cfg diff summary recent_commits ''conventional'' = Inr p
            \<and> sublist (''Types: '' @ join '', '' ts @ ''\<newline>'') p"
    unfolding build_prompt_types [OF types]
    using sublist_in_context [OF guide_conventional_types,
        where ps = "prompt_head @ join ''\<newline>'' (map render_file (files_changed summary)) @
          render_counts summary" and ct1 = "join '', '' ts"
          and ss = "fence_open @ diff @ fence_close @ recent_context recent_commits @ prompt_tail"]
    by (simp add: format_guide_def)
  have sem: "\<exists>p. build_prompt cfg diff summary recent_commits ''semantic'' = Inr p
            \<and> sublist (''\<newline>'' @ emoji_sparkles @ '' feat: add user authentication\<newline>'') p"
    unfolding build_prompt_types [OF types]
    using sublist_in_context [OF guide_semantic_example,
        where ps = "prompt_head @ join ''\<newline>'' (map render_file (files_changed summary)) @
          render_counts summary"
          and ss = "fence_open @ diff @ fence_close @ recent_context recent_commits @ prompt_tail"]
    by (simp add: format_guide_def)
  have simple: "build_prompt cfg diff summary recent_commits ''simple'' =
         Inr (prompt_head @ join ''\<newline>'' (map render_file (files_changed summary)) @
              render_counts summary @ guide_simple @
              fence_open @ diff @ fence_close @ recent_context recent_commits @ prompt_tail)"
    unfolding build_prompt_types [OF types] by (simp add: format_guide_def)
  show ?thesis
    using conv sem simple guide_simple_plain by blast
qed

text \<open>
  The scenario of the specification: one added file \<^verbatim>\<open>api.py\<close>, conventional style,
  commit types \<^verbatim>\<open>feat\<close> and \<^verbatim>\<open>fix\<close>.
\<close>

theorem build_prompt_style_markers_witness:
  "(\<exists>p. build_prompt [(''commit_types'', VList [VStr ''feat'', VStr ''fix''])] ''+x''
           \<lparr>files_changed = [\<lparr>path = Some ''api.py'', ftype = ''A''\<rparr>],
             additions = 1, deletions = 0, modifications = 0\<rparr> [] ''conventional'' = Inr p
        \<and> sublist ''Types: feat, fix\<newline>'' p)
   \<and> build_prompt [(''commit_types'', VList [VStr ''feat'', VStr ''fix''])] ''+x''
           \<lparr>files_changed = [\<lparr>path = Some ''api.py'', ftype = ''A''\<rparr>],
             additions = 1, deletions = 0, modifications = 0\<rparr> [] ''simple'' =
      Inr (prompt_head @ ''- api.py (A)'' @ ''\<newline>\<newline>Summary:\<newline>- 1 file(s) added\<newline>'' @
           ''- 0 file(s) modified\<newline>- 0 file(s) deleted\<newline>\<newline>'' @ guide_simple @
           fence_open @ ''+x'' @ fence_close @ prompt_tail)"
  using build_prompt_style_markers
    [of "[(''commit_types'', VList [VStr ''feat'', VStr ''fix''])]" "[''feat'', ''fix'']" "''+x''"
        "\<lparr>files_changed = [\<lparr>path = Some ''api.py'', ftype = ''A''\<rparr>],
          additions = 1, deletions = 0, modifications = 0\<rparr>" "[]"]
  by (simp add: render_file_def str_opt_def render_counts_def str_int_def str_nat.simps
        digit_char_def recent_context_def)

subsection \<open>The commit statistics\<close>

lemma digit_char_code:
  assumes "d < 10"
  shows "(of_char (digit_char d) :: nat) = 48 + d"
proof -
  from assms have "d = 0 \<or> d = 1 \<or> d = 2 \<or> d = 3 \<or> d = 4 \<or> d = 5 \<or> d = 6 \<or> d = 7 \<or> d = 8 \<or> d = 9"
    by arith
  then show ?thesis
    by (elim disjE) (simp_all add: digit_char_def)
qed

lemma digit_char_props:
  assumes "d < 10"
  shows "is_digit (digit_char d)" and "digit_val (digit_char d) = d"
    and "\<not> is_space (digit_char d)" and "digit_char d \<noteq> CHR '',''"
    and "digit_char d \<noteq> CHR ''_''" and "digit_char d \<noteq> CHR ''-''" and "digit_char d \<noteq> CHR ''+''"
  using assms digit_char_code [OF assms]
  by (auto simp: is_digit_def digit_val_def is_space_def)

lemma str_nat_digits: "str_nat n \<noteq> [] \<and> (\<forall>c \<in> set (str_nat n). \<exists>d < 10. c = digit_char d)"
proof (induction n rule: str_nat.induct)
  case (1 n)
  show ?case
  proof (cases "n < 10")
    case True
    then show ?thesis by (subst (1 2) str_nat.simps) auto
  next
    case False
    have "\<exists>d<10. digit_char (n mod 10) = digit_char d"
      by (rule exI [of _ "n mod 10"]) simp
    with False 1 show ?thesis
      by (subst (1 2) str_nat.simps) auto
  qed
qed

lemma digits_val_snoc: "digits_val acc (xs @ [c]) = 10 * digits_val acc xs + digit_val c"
  by (induction xs arbitrary: acc) simp_all

lemma digits_val_str_nat: "digits_val 0 (str_nat n) = n"
proof (induction n rule: str_nat.induct)
  case (1 n)
  show ?case
  proof (cases "n < 10")
    case True
    then show ?thesis by (subst str_nat.simps) (simp add: digit_char_props)
  next
    case False
    with 1 show ?thesis
      by (subst str_nat.simps) (simp add: digits_val_snoc digit_char_props)
  qed
qed

lemma int_body_digits:
  "xs \<noteq> [] \<Longrightarrow> \<forall>c \<in> set xs. is_digit c \<Longrightarrow> int_body xs"
proof (induction xs rule: int_body.induct)
  case (3 c d cs)
  then have "d \<noteq> CHR ''_''" by (auto simp: is_digit_def)
  with 3 show ?case by simp
qed simp_all

lemma strip_unchanged:
  assumes "s \<noteq> []" and "\<not> is_space (hd s)" and "\<not> is_space (last s)"
  shows "strip s = s"
proof -
  from assms have a: "dropWhile is_space s = s"
    by (cases s) simp_all
  from assms have "rev s \<noteq> []" and "\<not> is_space (hd (rev s))"
    by (simp_all add: hd_rev)
  then have "dropWhile is_space (rev s) = rev s"
    by (cases "rev s") simp_all
  with a show ?thesis by (simp add: strip_def)
qed

lemma py_int_str_nat: "py_int (str_nat n) = Inr (int n)"
proof -
  let ?s = "str_nat n"
  note dig = str_nat_digits [of n]
  from dig have ne: "?s \<noteq> []" by simp
  have all: "\<forall>c \<in> set ?s. is_digit c \<and> \<not> is_space c \<and> c \<noteq> CHR ''_''
      \<and> c \<noteq> CHR ''-'' \<and> c \<noteq> CHR ''+''"
  proof
    fix c assume "c \<in> set ?s"
    with dig obtain d where "d < 10" and "c = digit_char d" by blast
    then show "is_digit c \<and> \<not> is_space c \<and> c \<noteq> CHR ''_''
      \<and> c \<noteq> CHR ''-'' \<and> c \<noteq> CHR ''+''"
      by (simp add: digit_char_props)
  qed
  from ne all have "hd ?s \<in> set ?s" and "last ?s \<in> set ?s" by simp_all
  with all have ends: "\<not> is_space (hd ?s)" "\<not> is_space (last ?s)"
      "hd ?s \<noteq> CHR ''-''" "hd ?s \<noteq> CHR ''+''"
    by blast+
  have st: "strip ?s = ?s" using ne ends by (simp add: strip_unchanged)
  have body: "int_body ?s" using ne all by (simp add: int_body_digits)
  have flt: "filter (\<lambda>c. c \<noteq> CHR ''_'') ?s = ?s"
    using all by (simp add: filter_id_conv)
  show ?thesis
    by (simp add: py_int_def st Let_def ends body flt digits_val_str_nat)
qed

lemma split_on_acc_word:
  "sep \<notin> set w \<Longrightarrow> split_on_acc sep cur (w @ rest) = split_on_acc sep (cur @ w) rest"
  by (induction w arbitrary: cur) auto

lemma split_on_cons:
  "sep \<notin> set w \<Longrightarrow> split_on sep (w @ sep # rest) = w # split_on sep rest"
  by (simp add: split_on_def split_on_acc_word)

lemma split_on_last:
  "sep \<notin> set w \<Longrightarrow> split_on sep w = [w]"
  using split_on_acc_word [of sep w "[]" "[]"] by (simp add: split_on_def)

lemma split_ws_acc_word:
  "\<forall>c \<in> set w. \<not> is_space c \<Longrightarrow> split_ws_acc cur (w @ rest) = split_ws_acc (cur @ w) rest"
  by (induction w arbitrary: cur) auto

lemma split_ws_first:
  assumes "w \<noteq> []" and "\<forall>c \<in> set w. \<not> is_space c"
  shows "split_ws (w @ CHR '' '' # rest) = w # split_ws rest"
  using assms by (simp add: split_ws_def split_ws_acc_word is_space_def)

lemma stats_loop_part:
  assumes word: "sublist ''insertion'' w \<or> sublist ''deletion'' w"
    and ne: "w \<noteq> []" and last: "\<not> is_space (last w)"
  shows "stats_loop ((CHR '' '' # str_nat k @ CHR '' '' # w) # parts) total_changes =
         stats_loop parts (total_changes + int k)"
proof -
  let ?part = "CHR '' '' # str_nat k @ CHR '' '' # w"
  note dig = str_nat_digits [of k]
  from dig have kne: "str_nat k \<noteq> []" by simp
  have nosp: "\<forall>c \<in> set (str_nat k). \<not> is_space c"
  proof
    fix c assume "c \<in> set (str_nat k)"
    with dig obtain d where "d < 10" and "c = digit_char d" by blast
    then show "\<not> is_space c" by (simp add: digit_char_props)
  qed
  from kne nosp have "\<not> is_space (hd (str_nat k))" by simp
  then have dw: "dropWhile is_space ?part = str_nat k @ CHR '' '' # w"
    using kne by (cases "str_nat k") (simp_all add: is_space_def)
  from ne last have "dropWhile is_space (rev w @ ys) = rev w @ ys" for ys
    by (cases w rule: rev_cases) simp_all
  then have rx: "dropWhile is_space (rev (str_nat k @ CHR '' '' # w)) =
      rev (str_nat k @ CHR '' '' # w)"
    by simp
  have st: "strip ?part = str_nat k @ CHR '' '' # w"
    unfolding strip_def dw rx by simp
  have mention: "sublist ''insertion'' ?part \<or> sublist ''deletion'' ?part"
    using word sublist_in_context [of _ w "CHR '' '' # str_nat k @ [CHR '' '']" "[]"]
    by auto
  show ?thesis
    using mention by (simp add: st split_ws_first [OF kne nosp] py_int_str_nat)
qed


lemma str_nat_no_comma: "CHR '','' \<notin> set (str_nat n)"
proof
  assume "CHR '','' \<in> set (str_nat n)"
  with str_nat_digits [of n] obtain d where "d < 10" and "CHR '','' = digit_char d" by blast
  then show False using digit_char_props(4) [of d] by simp
qed

lemma stats_part_no_comma:
  "CHR '','' \<notin> set w \<Longrightarrow> CHR '','' \<notin> set (CHR '' '' # str_nat k @ CHR '' '' # w)"
  by (simp add: str_nat_no_comma)

lemma get_commit_stats_two:
  assumes h: "CHR '','' \<notin> set h" and w1: "CHR '','' \<notin> set w1" and w2: "CHR '','' \<notin> set w2"
    and m1: "sublist ''insertion'' w1 \<or> sublist ''deletion'' w1" "w1 \<noteq> []" "\<not> is_space (last w1)"
    and m2: "sublist ''insertion'' w2 \<or> sublist ''deletion'' w2" "w2 \<noteq> []" "\<not> is_space (last w2)"
  shows "get_commit_stats diff
           (h @ CHR '','' # (CHR '' '' # str_nat i @ CHR '' '' # w1)
              @ CHR '','' # (CHR '' '' # str_nat d @ CHR '' '' # w2)) =
         Inr (length diff, int i + int d)"
proof -
  have "split_on CHR '','' (h @ CHR '','' # (CHR '' '' # str_nat i @ CHR '' '' # w1)
              @ CHR '','' # (CHR '' '' # str_nat d @ CHR '' '' # w2)) =
        [h, CHR '' '' # str_nat i @ CHR '' '' # w1, CHR '' '' # str_nat d @ CHR '' '' # w2]"
    unfolding split_on_cons [OF h] split_on_cons [OF stats_part_no_comma [OF w1]]
      split_on_last [OF stats_part_no_comma [OF w2]] ..
  then show ?thesis
    by (simp add: get_commit_stats_def stats_loop_part [OF m1] stats_loop_part [OF m2]
          del: stats_loop.simps(2))
qed

lemma get_commit_stats_one:
  assumes h: "CHR '','' \<notin> set h" and w1: "CHR '','' \<notin> set w1"
    and m1: "sublist ''insertion'' w1 \<or> sublist ''deletion'' w1" "w1 \<noteq> []" "\<not> is_space (last w1)"
  shows "get_commit_stats diff (h @ CHR '','' # (CHR '' '' # str_nat i @ CHR '' '' # w1)) =
         Inr (length diff, int i)"
proof -
  have "split_on CHR '','' (h @ CHR '','' # (CHR '' '' # str_nat i @ CHR '' '' # w1)) =
        [h, CHR '' '' # str_nat i @ CHR '' '' # w1]"
    unfolding split_on_cons [OF h] split_on_last [OF stats_part_no_comma [OF w1]] ..
  then show ?thesis
    by (simp add: get_commit_stats_def stats_loop_part [OF m1] del: stats_loop.simps(2))
qed

lemma insertion_word:
  "CHR '','' \<notin> set (''insertion'' @ plural k @ ''(+)'')"
  "sublist ''insertion'' (''insertion'' @ plural k @ ''(+)'')"
  "''insertion'' @ plural k @ ''(+)'' \<noteq> []"
  "\<not> is_space (last (''insertion'' @ plural k @ ''(+)''))"
  by (simp_all add: plural_def is_space_def)

lemma deletion_word:
  "CHR '','' \<notin> set (''deletion'' @ plural k @ ''(-)'')"
  "sublist ''deletion'' (''deletion'' @ plural k @ ''(-)'')"
  "''deletion'' @ plural k @ ''(-)'' \<noteq> []"
  "\<not> is_space (last (''deletion'' @ plural k @ ''(-)''))"
  by (simp_all add: plural_def is_space_def)

lemma files_part_no_comma:
  "CHR '','' \<notin> set ('' '' @ str_nat files @ '' file'' @ plural files @ '' changed'')"
  by (simp add: str_nat_no_comma plural_def)

text \<open>
  C9. For the line that git prints for \<open>files\<close> changed files with \<open>ins\<close> inserted
  and \<open>dels\<close> deleted lines, \<^verbatim>\<open>get_commit_stats\<close> returns the number of entries of the
  index diff and the sum of the two counts; for an empty line it returns 0 as the sum.
\<close>

theorem get_commit_stats_shortstat:
  "get_commit_stats diff (shortstat_line files ins dels) =
     Inr (length diff, if files = 0 then 0 else int ins + int dels)
   \<and> get_commit_stats diff [] = Inr (length diff, 0)"
proof -
  let ?h = "'' '' @ str_nat files @ '' file'' @ plural files @ '' changed''"
  let ?wi = "''insertion'' @ plural ins @ ''(+)''"
  let ?wd = "''deletion'' @ plural dels @ ''(-)''"
  note two = get_commit_stats_two [where diff = diff and h = ?h, OF files_part_no_comma]
  note one = get_commit_stats_one [where diff = diff and h = ?h, OF files_part_no_comma]
  have empty: "get_commit_stats diff [] = Inr (length diff, 0)"
    by (simp add: get_commit_stats_def)
  have both: "get_commit_stats diff
      (?h @ CHR '','' # (CHR '' '' # str_nat ins @ CHR '' '' # ?wi)
          @ CHR '','' # (CHR '' '' # str_nat dels @ CHR '' '' # ?wd)) =
      Inr (length diff, int ins + int dels)"
    by (rule two) (simp_all only: insertion_word deletion_word not_False_eq_True simp_thms)
  have only_ins: "get_commit_stats diff
      (?h @ CHR '','' # (CHR '' '' # str_nat ins @ CHR '' '' # ?wi)) = Inr (length diff, int ins)"
    by (rule one) (simp_all only: insertion_word not_False_eq_True simp_thms)
  have only_del: "get_commit_stats diff
      (?h @ CHR '','' # (CHR '' '' # str_nat dels @ CHR '' '' # ?wd)) = Inr (length diff, int dels)"
    by (rule one) (simp_all only: deletion_word not_False_eq_True simp_thms)
  have line: "get_commit_stats diff (shortstat_line files ins dels) =
     Inr (length diff, if files = 0 then 0 else int ins + int dels)"
  proof (cases "files = 0")
    case True
    then show ?thesis by (simp add: shortstat_line_def empty)
  next
    case files: False
    consider (b) "(0 < ins \<or> dels = 0) \<and> (0 < dels \<or> ins = 0)"
      | (i) "0 < ins \<and> dels = 0" | (d) "0 < dels \<and> ins = 0"
      by arith
    then show ?thesis
    proof cases
      case b
      have "shortstat_line files ins dels =
          ?h @ CHR '','' # (CHR '' '' # str_nat ins @ CHR '' '' # ?wi)
             @ CHR '','' # (CHR '' '' # str_nat dels @ CHR '' '' # ?wd)"
        using files b by (simp add: shortstat_line_def)
      then show ?thesis using both files by simp
    next
      case i
      have "shortstat_line files ins dels =
          ?h @ CHR '','' # (CHR '' '' # str_nat ins @ CHR '' '' # ?wi)"
        using files i by (simp add: shortstat_line_def)
      then show ?thesis using only_ins files i by simp
    next
      case d
      have "shortstat_line files ins dels =
          ?h @ CHR '','' # (CHR '' '' # str_nat dels @ CHR '' '' # ?wd)"
        using files d by (simp add: shortstat_line_def)
      then show ?thesis using only_del files d by simp
    qed
  qed
  from line empty show ?thesis by (rule conjI)
qed

theorem get_commit_stats_shortstat_witness:
  "shortstat_line 2 10 3 = '' 2 files changed, 10 insertions(+), 3 deletions(-)''
   \<and> get_commit_stats [] '' 2 files changed, 10 insertions(+), 3 deletions(-)'' = Inr (0, 13)"
  using get_commit_stats_shortstat [of "[]" 2 10 3]
  by (simp add: shortstat_line_def str_nat.simps digit_char_def plural_def)

subsection \<open>The message session\<close>












text \<open>
  C4, as the code has it. When the provider call of the feedback action raises, the
  assignment to the current message never happens and the exception leaves the loop:
  the inputs that follow are not read, and \<^verbatim>\<open>commit\<close> reports the exception, creates no
  commit and exits with status 1.
\<close>

theorem feedback_failure_ends_session:
  assumes "refine_message sdk_call llm cfg current_message (strip feedback) = Inl e"
  shows "interactive_edit fl panel sdk_call llm cfg current_message
             (Feedback feedback # inputs) = (Raised e, cfg)
       \<and> commit_end fl panel sdk_call llm cfg repo_commit current_message False dry_run
            (Feedback feedback # inputs) confirm =
           \<lparr>exit_status = 1, committed = None, reported = Some e\<rparr>"
  using assms by (simp add: commit_end_def)

theorem feedback_failure_ends_session_witness:
  "interactive_edit \<lparr>float_add = (+), float_of_int = (\<lambda>i. Some (of_int i))\<rparr> (\<lambda>t. None)
       (\<lambda>which c req. Inl (SdkError ''timeout''))
       \<lparr>provider = VStr ''anthropic'', model = VStr ''m'', client = ()\<rparr> DEFAULT_CONFIG
       ''feat: add api'' [Feedback ''shorter'', Edit [''fix: typo''], Accept] =
     (Raised (SdkError ''timeout''), DEFAULT_CONFIG)
   \<and> commit_end \<lparr>float_add = (+), float_of_int = (\<lambda>i. Some (of_int i))\<rparr> (\<lambda>t. None)
       (\<lambda>which c req. Inl (SdkError ''timeout''))
       \<lparr>provider = VStr ''anthropic'', model = VStr ''m'', client = ()\<rparr> DEFAULT_CONFIG
       (\<lambda>m. Inr ''0123456789abcdef0123456789abcdef01234567'') ''feat: add api'' False False
       [Feedback ''shorter'', Edit [''fix: typo''], Accept] True =
     \<lparr>exit_status = 1, committed = None, reported = Some (SdkError ''timeout'')\<rparr>"
proof -
  let ?call = "\<lambda>(which::api) (c::unit) (req::completion_request).
      (Inl (SdkError ''timeout'') :: exn + string)"
  let ?llm = "\<lparr>provider = VStr ''anthropic'', model = VStr ''m'', client = ()\<rparr>"
  have fails: "refine_message ?call ?llm DEFAULT_CONFIG ''feat: add api'' (strip ''shorter'') =
      Inl (SdkError ''timeout'')"
    by (simp add: refine_message_def dispatch_def generate_with_def)
  from feedback_failure_ends_session [OF fails,
      of "\<lparr>float_add = (+), float_of_int = (\<lambda>i. Some (of_int i))\<rparr>" "\<lambda>t. None"
         "[Edit [''fix: typo''], Accept]"
         "\<lambda>m. Inr ''0123456789abcdef0123456789abcdef01234567''" False True]
  show ?thesis by simp
qed

text \<open>
  C4 as stated fails: a provider that times out during feedback ends the session. Had
  control returned to the options menu with the message retained, the following
  \<^verbatim>\<open>Accept\<close> would have returned the message, as it does without the feedback step.
\<close>

theorem feedback_failure_counterexample:
  "interactive_edit \<lparr>float_add = (+), float_of_int = (\<lambda>i. Some (of_int i))\<rparr> (\<lambda>t. None)
       (\<lambda>which c req. Inl (SdkError ''timeout''))
       \<lparr>provider = VStr ''anthropic'', model = VStr ''m'', client = ()\<rparr> DEFAULT_CONFIG
       ''feat: add api'' [Feedback ''shorter'', Accept] =
     (Raised (SdkError ''timeout''), DEFAULT_CONFIG)
   \<and> interactive_edit \<lparr>float_add = (+), float_of_int = (\<lambda>i. Some (of_int i))\<rparr> (\<lambda>t. None)
       (\<lambda>which c req. Inl (SdkError ''timeout''))
       \<lparr>provider = VStr ''anthropic'', model = VStr ''m'', client = ()\<rparr> DEFAULT_CONFIG
       ''feat: add api'' [Feedback ''shorter'', Accept] \<noteq>
     interactive_edit \<lparr>float_add = (+), float_of_int = (\<lambda>i. Some (of_int i))\<rparr> (\<lambda>t. None)
       (\<lambda>which c req. Inl (SdkError ''timeout''))
       \<lparr>provider = VStr ''anthropic'', model = VStr ''m'', client = ()\<rparr> DEFAULT_CONFIG
       ''feat: add api'' [Accept]
   \<and> exit_status (commit_end \<lparr>float_add = (+), float_of_int = (\<lambda>i. Some (of_int i))\<rparr>
       (\<lambda>t. None) (\<lambda>which c req. Inl (SdkError ''timeout''))
       \<lparr>provider = VStr ''anthropic'', model = VStr ''m'', client = ()\<rparr> DEFAULT_CONFIG
       (\<lambda>m. Inr ''0123456789abcdef0123456789abcdef01234567'') ''feat: add api'' False False
       [Feedback ''shorter'', Accept] True) = 1"
  by (simp add: refine_message_def dispatch_def generate_with_def commit_end_def)

subsection \<open>The client and its credentials\<close>

text \<open>
  C5, as the code has it. For the providers \<^verbatim>\<open>anthropic\<close> and \<^verbatim>\<open>openai\<close>, when the
  API-key variable is not in the environment, \<^verbatim>\<open>Config.api_key\<close> is \<^verbatim>\<open>None\<close>, the
  constructor of \<^verbatim>\<open>LLMClient\<close> hands
  \<^verbatim>\<open>None\<close> as key to the SDK's client constructor and its result is the constructor's:
  the client when the SDK accepts the missing key, the SDK's exception otherwise. On a
  client made so, \<^verbatim>\<open>generate_commit_message\<close> builds the prompt and hands it to the
  SDK's completion call with that client; its result is the text of the call, stripped,
  or the exception of the call. The code checks the key at neither step.
\<close>

theorem client_init_passes_key_to_sdk:
  assumes prov: "config_provider cfg = Inr (VStr p)"
    and remote: "p = ''anthropic'' \<or> p = ''openai''"
    and mdl: "config_model cfg = Inr mdl"
    and absent: "env (if p = ''anthropic'' then ''ANTHROPIC_API_KEY'' else ''OPENAI_API_KEY'') = None"
  shows "config_api_key cfg env = Inr None
       \<and> LLMClient_init sdk cfg env None =
           (case sdk (if p = ''anthropic'' then Anthropic None else OpenAI None None) of
              Inl e \<Rightarrow> Inl e
            | Inr c \<Rightarrow> Inr \<lparr>provider = VStr p, model = mdl, client = c\<rparr>)
       \<and> (\<forall>c. sdk (if p = ''anthropic'' then Anthropic None else OpenAI None None) = Inr c \<longrightarrow>
            LLMClient_init sdk cfg env None =
              Inr \<lparr>provider = VStr p, model = mdl, client = c\<rparr>
            \<and> generate_commit_message sdk_call
                 \<lparr>provider = VStr p, model = mdl, client = c\<rparr>
                 cfg diff summary recent_commits style =
               (case generation_prompt cfg diff summary recent_commits style of
                  Inl e \<Rightarrow> Inl e
                | Inr prompt \<Rightarrow>
                    (case sdk_call (if p = ''anthropic'' then Messages else ChatCompletions) c
                            \<lparr>req_model = mdl, max_tokens = 500,
                             temperature =
                               config_get_default cfg ''temperature'' (VFloat float_0_3),
                             content = prompt\<rparr> of
                       Inl e \<Rightarrow> Inl e
                     | Inr text \<Rightarrow> Inr (strip text))))"
proof -
  let ?ctor = "if p = ''anthropic'' then Anthropic None else OpenAI None None"
  have key: "config_api_key cfg env = Inr None"
    using remote
  proof
    assume pa: "p = ''anthropic''"
    show ?thesis
      using prov absent unfolding pa by (simp add: config_api_key_def)
  next
    assume po: "p = ''openai''"
    show ?thesis
      using prov absent unfolding po by (simp add: config_api_key_def)
  qed
  have init: "LLMClient_init sdk cfg env None =
           (case sdk ?ctor of
              Inl e \<Rightarrow> Inl e
            | Inr c \<Rightarrow> Inr \<lparr>provider = VStr p, model = mdl, client = c\<rparr>)"
    using remote
  proof
    assume pa: "p = ''anthropic''"
    show ?thesis
      using prov mdl absent unfolding pa
      by (simp add: LLMClient_init_def config_api_key_def)
  next
    assume po: "p = ''openai''"
    show ?thesis
      using prov mdl absent unfolding po
      by (simp add: LLMClient_init_def config_api_key_def)
  qed
  have gen: "generate_commit_message sdk_call
                 \<lparr>provider = VStr p, model = mdl, client = c\<rparr>
                 cfg diff summary recent_commits style =
               (case generation_prompt cfg diff summary recent_commits style of
                  Inl e \<Rightarrow> Inl e
                | Inr prompt \<Rightarrow>
                    (case sdk_call (if p = ''anthropic'' then Messages else ChatCompletions) c
                            \<lparr>req_model = mdl, max_tokens = 500,
                             temperature =
                               config_get_default cfg ''temperature'' (VFloat float_0_3),
                             content = prompt\<rparr> of
                       Inl e \<Rightarrow> Inl e
                     | Inr text \<Rightarrow> Inr (strip text)))" for c
    by (simp add: generate_commit_message_def dispatch_def generate_with_def
          split: sum.splits)
  show ?thesis
    using key init gen by simp
qed

theorem client_init_passes_key_to_sdk_witness:
  "LLMClient_init (\<lambda>args. Inl (SdkError ''api_key must be set''))
       (dict_set DEFAULT_CONFIG ''provider'' (VStr ''openai'')) Map.empty None =
     (Inl (SdkError ''api_key must be set'') :: exn + unit llm_client)
   \<and> LLMClient_init Inr DEFAULT_CONFIG Map.empty None =
     Inr \<lparr>provider = VStr ''anthropic'', model = VStr ''claude-sonnet-4-20250514'',
          client = Anthropic None\<rparr>"
proof -
  let ?cfg = "dict_set DEFAULT_CONFIG ''provider'' (VStr ''openai'')"
  have prov: "config_provider ?cfg = Inr (VStr ''openai'')"
    by (simp add: DEFAULT_CONFIG_def config_provider_def config_item_def)
  have remote: "''openai'' = ''anthropic'' \<or> ''openai'' = ''openai''"
    by simp
  have mdl: "config_model ?cfg = Inr (VStr ''gpt-4-turbo-preview'')"
    by (simp add: DEFAULT_CONFIG_def config_provider_def config_model_def config_item_def
          subscript_def)
  have absent: "Map.empty (if ''openai'' = ''anthropic'' then ''ANTHROPIC_API_KEY''
      else ''OPENAI_API_KEY'') = None"
    by simp
  from client_init_passes_key_to_sdk [OF prov remote mdl absent,
      of "\<lambda>args. Inl (SdkError ''api_key must be set'') :: exn + unit"
         "\<lambda>which c req. Inr ''x''" "''+x''" empty_summary "[]" "''simple''",
      THEN conjunct2, THEN conjunct1]
  have refused: "LLMClient_init (\<lambda>args. Inl (SdkError ''api_key must be set'')) ?cfg
      Map.empty None = (Inl (SdkError ''api_key must be set'') :: exn + unit llm_client)"
    by simp
  have prov': "config_provider DEFAULT_CONFIG = Inr (VStr ''anthropic'')"
    by (simp add: DEFAULT_CONFIG_def config_provider_def config_item_def)
  have remote': "''anthropic'' = ''anthropic'' \<or> ''anthropic'' = ''openai''"
    by simp
  have mdl': "config_model DEFAULT_CONFIG = Inr (VStr ''claude-sonnet-4-20250514'')"
    by (simp add: DEFAULT_CONFIG_def config_provider_def config_model_def config_item_def
          subscript_def)
  have absent': "Map.empty (if ''anthropic'' = ''anthropic'' then ''ANTHROPIC_API_KEY''
      else ''OPENAI_API_KEY'') = None"
    by simp
  from client_init_passes_key_to_sdk [OF prov' remote' mdl' absent',
      of "Inr :: sdk_ctor \<Rightarrow> exn + sdk_ctor"
         "\<lambda>which c req. Inr ''x''" "''+x''" empty_summary "[]" "''simple''",
      THEN conjunct2, THEN conjunct1]
  have accepted: "LLMClient_init Inr DEFAULT_CONFIG Map.empty None =
     Inr \<lparr>provider = VStr ''anthropic'', model = VStr ''claude-sonnet-4-20250514'',
          client = Anthropic None\<rparr>"
    by simp
  from refused accepted show ?thesis by (rule conjI)
qed

text \<open>
  C5 as stated fails: the code raises nothing of its own. With the default
  configuration, an empty environment and an SDK whose constructor accepts the key it is
  given (here the client is the record of the constructor's arguments), the client is
  built with the key \<^verbatim>\<open>None\<close>, and a completion is requested and returned.
\<close>

theorem missing_credential_counterexample:
  "LLMClient_init Inr DEFAULT_CONFIG Map.empty None =
     Inr \<lparr>provider = VStr ''anthropic'', model = VStr ''claude-sonnet-4-20250514'',
          client = Anthropic None\<rparr>
   \<and> generate_commit_message (\<lambda>which c req. Inr ''feat: add api\<newline>'')
       \<lparr>provider = VStr ''anthropic'', model = VStr ''claude-sonnet-4-20250514'',
        client = Anthropic None\<rparr>
       DEFAULT_CONFIG ''+x'' empty_summary [] ''simple'' = Inr ''feat: add api''"
  by (simp add: LLMClient_init_def DEFAULT_CONFIG_def config_provider_def config_model_def
        config_item_def subscript_def config_api_key_def generate_commit_message_def
        generation_prompt_def truncate_diff_def config_get_default_def build_prompt_def
        join_value_def dispatch_def generate_with_def strip_def is_space_def)

subsection \<open>The configuration commands\<close>

text \<open>
  C6. \<^verbatim>\<open>config_set\<close> with the key \<^verbatim>\<open>a.b\<close> stores the value under \<^verbatim>\<open>a\<close>, then \<^verbatim>\<open>b\<close>;
  \<^verbatim>\<open>config_get\<close> with the same key looks for a top-level key spelled \<^verbatim>\<open>a.b\<close>, finds
  none and prints \<^verbatim>\<open>None\<close>. The same holds for \<^verbatim>\<open>model.anthropic\<close>, a nested key of the
  default configuration.
\<close>

theorem config_get_ignores_dot_path:
  "config_set DEFAULT_CONFIG ''a.b'' ''v'' =
     Inr (DEFAULT_CONFIG @ [(''a'', VDict [(''b'', VStr ''v'')])])
   \<and> config_get (DEFAULT_CONFIG @ [(''a'', VDict [(''b'', VStr ''v'')])]) (Some ''a.b'') =
     Some VNone
   \<and> config_set DEFAULT_CONFIG ''model.anthropic'' ''claude-x'' =
     Inr (dict_set DEFAULT_CONFIG ''model''
            (VDict [(''anthropic'', VStr ''claude-x''),
                    (''openai'', VStr ''gpt-4-turbo-preview''),
                    (''ollama'', VStr ''llama2'')]))
   \<and> config_get (dict_set DEFAULT_CONFIG ''model''
            (VDict [(''anthropic'', VStr ''claude-x''),
                    (''openai'', VStr ''gpt-4-turbo-preview''),
                    (''ollama'', VStr ''llama2'')])) (Some ''model.anthropic'') =
     Some VNone"
  by (simp add: config_set_def config_get_def split_on_def DEFAULT_CONFIG_def
        config_get_default_def)

end
